theory Spec2Isabelle
  imports Main "HOL-Library.Sublist" "HOL-Library.Multiset"
begin

section \<open>Strings\<close>

text \<open>
  A JavaScript string is a sequence of UTF-16 code units. The model takes the strings
  whose code units are all below 256 (Latin-1), one \<^typ>\<open>char\<close> per code unit, so
  that \<open>length\<close>, \<open>startsWith\<close> and \<open>substring\<close> count what the source counts.
  The accented letters of the source's messages are written by their code unit.
\<close>

definition isDigit :: "char \<Rightarrow> bool" where
  "isDigit c \<longleftrightarrow> c \<in> set ''0123456789''"

definition isAlpha :: "char \<Rightarrow> bool" where
  "isAlpha c \<longleftrightarrow>
     c \<in> set ''abcdefghijklmnopqrstuvwxyz'' \<or> c \<in> set ''ABCDEFGHIJKLMNOPQRSTUVWXYZ''"

text \<open>Template literals print a number in decimal: \<open>`${status}`\<close>.\<close>

definition digitChar :: "nat \<Rightarrow> char" where
  "digitChar d = ''0123456789ABCDEF'' ! (d mod 16)"

function decimal :: "nat \<Rightarrow> string" where
  "decimal n = (if n < 10 then [digitChar n] else decimal (n div 10) @ [digitChar (n mod 10)])"
  by pat_completeness auto
termination
  by (relation "measure (\<lambda>n. n)") auto

declare decimal.simps [simp del]

text \<open>
  \<open>encodeURIComponent\<close>: letters, digits and \<open>- _ . ! ~ * ' ( )\<close> stay, every other
  code unit is written as the percent-escaped bytes of its UTF-8 encoding (one byte
  below 128, two bytes from 128 to 255). The built-in throws only on a lone surrogate,
  which is not a Latin-1 code unit.
\<close>

definition uriUnreserved :: "char \<Rightarrow> bool" where
  "uriUnreserved c \<longleftrightarrow> isAlpha c \<or> isDigit c \<or> c \<in> set (''-_.!~*()'' @ [CHR 0x27])"

definition pctByte :: "nat \<Rightarrow> string" where
  "pctByte b = [CHR ''%'', digitChar (b div 16), digitChar (b mod 16)]"

definition encodeUnit :: "char \<Rightarrow> string" where
  "encodeUnit c =
     (let u = (of_char c :: nat) in
      if uriUnreserved c then [c]
      else if u < 128 then pctByte u
      else pctByte (192 + u div 64) @ pctByte (128 + u mod 64))"

definition encodeURIComponent :: "string \<Rightarrow> string" where
  "encodeURIComponent s = concat (map encodeUnit s)"

section \<open>CpcValidationService\<close>

record CpcApiResponse =
  sucesso :: bool
  mensagem :: string

record CanContactResult =
  allowed :: bool
  reason :: string

record CpcValidationService =
  apiUrl :: string
  apiUser :: string
  apiPassword :: string
  enabled :: bool
  authHeader :: string

text \<open>
  \<open>a || d\<close> on an optional string is \<open>d\<close> when \<open>a\<close> is undefined or empty. The
  constructor reads four configuration keys in this way. The Base64 encoder of the
  platform is a parameter.
\<close>

definition orDefault :: "string option \<Rightarrow> string \<Rightarrow> string" where
  "orDefault v d = (case v of None \<Rightarrow> d | Some s \<Rightarrow> if s = [] then d else s)"

definition newCpcValidationService ::
  "(string \<Rightarrow> string) \<Rightarrow> (string \<Rightarrow> string option) \<Rightarrow> CpcValidationService" where
  "newCpcValidationService base64 config =
     (let url = orDefault (config ''CPC_API_URL'') [];
          user = orDefault (config ''CPC_API_USER'') ''Vend'';
          password = orDefault (config ''CPC_API_PASSWORD'') [];
          credentials = user @ '':'' @ password
      in \<lparr>apiUrl = url, apiUser = user, apiPassword = password,
          enabled = (config ''CPC_API_ENABLED'' = Some ''true''),
          authHeader = ''Basic '' @ base64 credentials\<rparr>)"

definition isEnabled :: "CpcValidationService \<Rightarrow> bool" where
  "isEnabled svc \<longleftrightarrow> enabled svc \<and> apiUrl svc \<noteq> []"

definition formatPhoneForPartner :: "string \<Rightarrow> string" where
  "formatPhoneForPartner phone =
     (let cleanPhone = filter isDigit phone in
      if prefix ''55'' cleanPhone \<and> length cleanPhone > 11 then drop 2 cleanPhone
      else cleanPhone)"

subsection \<open>The HTTP client\<close>

datatype http_method = GET | POST

record register_payload =
  telefone :: string
  contrato :: string
  segmento :: string

record http_request =
  req_method :: http_method
  req_url :: string
  req_body :: "register_payload option"
  req_headers :: "(string \<times> string) list"
  req_timeout :: nat

text \<open>
  What \<open>handleApiError\<close> reads of a thrown error: \<open>response\<close> (the status and
  \<open>response.data?.mensagem\<close>, \<open>None\<close> when the body or the field is missing),
  whether \<open>request\<close> is set, and \<open>message\<close>.
\<close>

record error_response =
  status :: nat
  data_mensagem :: "string option"

record AxiosError =
  response :: "error_response option"
  request :: bool
  message :: string

text \<open>
  A call either resolves with the response body, of the declared type
  \<open>CpcApiResponse\<close>, or rejects with an error. The partner is a parameter: it answers
  a request knowing the requests made before it, so any sequence of answers can be given. The state threaded through the operations is the
  list of requests issued so far.
\<close>

type_synonym axios = "http_request list \<Rightarrow> http_request \<Rightarrow> AxiosError + CpcApiResponse"

definition axios_call ::
  "axios \<Rightarrow> http_request \<Rightarrow> http_request list
     \<Rightarrow> (AxiosError + CpcApiResponse) \<times> http_request list" where
  "axios_call ax rq calls = (ax calls rq, calls @ [rq])"

subsection \<open>Error normalisation\<close>

definition timeoutMessage :: string where
  "timeoutMessage = ''API CPC indispon'' @ [CHR 0xED] @ ''vel - timeout''"

definition handleApiError :: "AxiosError \<Rightarrow> string \<Rightarrow> CpcApiResponse" where
  "handleApiError axiosError endpoint =
     (case response axiosError of
        Some r \<Rightarrow>
          \<lparr>sucesso = False,
           mensagem = orDefault (data_mensagem r) (''Erro na API: '' @ decimal (status r))\<rparr>
      | None \<Rightarrow>
          if request axiosError then \<lparr>sucesso = False, mensagem = timeoutMessage\<rparr>
          else \<lparr>sucesso = False, mensagem = ''Erro interno: '' @ message axiosError\<rparr>)"

subsection \<open>The three partner calls\<close>

text \<open>
  Each operation is asynchronous: its value is \<open>Inr\<close> when the promise resolves and
  \<open>Inl\<close> when it rejects. The body of each \<open>try\<close> is the request; whatever it throws
  goes to \<open>handleApiError\<close>. Logger calls only write diagnostics and are left out.
\<close>

definition validateContract_queryString :: "string \<Rightarrow> string \<Rightarrow> string option \<Rightarrow> string" where
  "validateContract_queryString contract segment phone =
     ''contrato='' @ encodeURIComponent contract @ ''&segmento='' @ encodeURIComponent segment
     @ (case phone of
          None \<Rightarrow> []
        | Some p \<Rightarrow>
            if p \<noteq> [] then ''&telefone='' @ encodeURIComponent (formatPhoneForPartner p)
            else [])"

definition validateContract_request ::
  "CpcValidationService \<Rightarrow> string \<Rightarrow> string \<Rightarrow> string option \<Rightarrow> http_request" where
  "validateContract_request svc contract segment phone =
     \<lparr>req_method = GET,
      req_url = apiUrl svc @ ''/validate-contract?''
                @ validateContract_queryString contract segment phone,
      req_body = None,
      req_headers = [(''Authorization'', authHeader svc)],
      req_timeout = 30000\<rparr>"

definition validateContract ::
  "CpcValidationService \<Rightarrow> axios \<Rightarrow> string \<Rightarrow> string \<Rightarrow> string option \<Rightarrow> http_request list
     \<Rightarrow> (AxiosError + CpcApiResponse) \<times> http_request list" where
  "validateContract svc ax contract segment phone calls =
     (if \<not> isEnabled svc
      then (Inr \<lparr>sucesso = True, mensagem = ''CPC API desabilitada''\<rparr>, calls)
      else
        (case axios_call ax (validateContract_request svc contract segment phone) calls of
           (Inr data, calls') \<Rightarrow> (Inr data, calls')
         | (Inl error, calls') \<Rightarrow> (Inr (handleApiError error ''validate-contract''), calls')))"

definition checkAcionamento_queryString :: "string \<Rightarrow> string \<Rightarrow> string \<Rightarrow> string" where
  "checkAcionamento_queryString contract phone segment =
     ''contrato='' @ encodeURIComponent contract
     @ ''&telefone='' @ encodeURIComponent (formatPhoneForPartner phone)
     @ ''&segmento='' @ encodeURIComponent segment"

definition checkAcionamento_request ::
  "CpcValidationService \<Rightarrow> string \<Rightarrow> string \<Rightarrow> string \<Rightarrow> http_request" where
  "checkAcionamento_request svc contract phone segment =
     \<lparr>req_method = GET,
      req_url = apiUrl svc @ ''/check-acionamento?''
                @ checkAcionamento_queryString contract phone segment,
      req_body = None,
      req_headers = [(''Authorization'', authHeader svc)],
      req_timeout = 30000\<rparr>"

definition checkAcionamento ::
  "CpcValidationService \<Rightarrow> axios \<Rightarrow> string \<Rightarrow> string \<Rightarrow> string \<Rightarrow> http_request list
     \<Rightarrow> (AxiosError + CpcApiResponse) \<times> http_request list" where
  "checkAcionamento svc ax contract phone segment calls =
     (if \<not> isEnabled svc
      then (Inr \<lparr>sucesso = True, mensagem = ''CPC API desabilitada''\<rparr>, calls)
      else
        (case axios_call ax (checkAcionamento_request svc contract phone segment) calls of
           (Inr data, calls') \<Rightarrow> (Inr data, calls')
         | (Inl error, calls') \<Rightarrow> (Inr (handleApiError error ''check-acionamento''), calls')))"

definition registerAcionamento_request ::
  "CpcValidationService \<Rightarrow> string \<Rightarrow> string \<Rightarrow> string \<Rightarrow> http_request" where
  "registerAcionamento_request svc contract phone segment =
     \<lparr>req_method = POST,
      req_url = apiUrl svc @ ''/register-acionamento'',
      req_body = Some \<lparr>telefone = formatPhoneForPartner phone, contrato = contract,
                       segmento = segment\<rparr>,
      req_headers = [(''Authorization'', authHeader svc),
                     (''Content-Type'', ''application/json'')],
      req_timeout = 30000\<rparr>"

definition registerAcionamento ::
  "CpcValidationService \<Rightarrow> axios \<Rightarrow> string \<Rightarrow> string \<Rightarrow> string \<Rightarrow> http_request list
     \<Rightarrow> (AxiosError + CpcApiResponse) \<times> http_request list" where
  "registerAcionamento svc ax contract phone segment calls =
     (if \<not> isEnabled svc
      then (Inr \<lparr>sucesso = True, mensagem = ''CPC API desabilitada''\<rparr>, calls)
      else
        (case axios_call ax (registerAcionamento_request svc contract phone segment) calls of
           (Inr data, calls') \<Rightarrow> (Inr data, calls')
         | (Inl error, calls') \<Rightarrow> (Inr (handleApiError error ''register-acionamento''), calls')))"

subsection \<open>The composite decision\<close>

definition canContact ::
  "CpcValidationService \<Rightarrow> axios \<Rightarrow> string \<Rightarrow> string \<Rightarrow> string \<Rightarrow> http_request list
     \<Rightarrow> (AxiosError + CanContactResult) \<times> http_request list" where
  "canContact svc ax contract phone segment calls =
     (if \<not> isEnabled svc then (Inr \<lparr>allowed = True, reason = ''CPC API desabilitada''\<rparr>, calls)
      else
        (case validateContract svc ax contract segment (Some phone) calls of
           (Inl e, calls1) \<Rightarrow> (Inl e, calls1)
         | (Inr contractValidation, calls1) \<Rightarrow>
             (if \<not> sucesso contractValidation
              then (Inr \<lparr>allowed = False, reason = mensagem contractValidation\<rparr>, calls1)
              else
                (case checkAcionamento svc ax contract phone segment calls1 of
                   (Inl e, calls2) \<Rightarrow> (Inl e, calls2)
                 | (Inr acionamentoCheck, calls2) \<Rightarrow>
                     (if \<not> sucesso acionamentoCheck
                      then (Inr \<lparr>allowed = False, reason = mensagem acionamentoCheck\<rparr>,
                            calls2)
                      else (Inr \<lparr>allowed = True, reason = ''Cliente pode ser acionado''\<rparr>,
                            calls2))))))"

section \<open>ContactsService\<close>

subsection \<open>The store\<close>

text \<open>
  Modelled from the spec: the \<open>Contact\<close> table of the database schema, which is declared
  outside the service. A contact has a generated numeric id and a unique phone as
  identity, and the attributes name, cpf and segment (optional), isCPC, lastCPCAt
  (nullable), isNameManual and createdAt. Timestamps are numbers.
\<close>

record Contact =
  contact_id :: nat
  phone :: string
  name :: "string option"
  cpf :: "string option"
  segment :: "int option"
  isCPC :: bool
  lastCPCAt :: "nat option"
  isNameManual :: bool
  createdAt :: nat

text \<open>
  Modelled from the spec: the \<open>Conversation\<close> table, of which the service touches
  \<open>contactPhone\<close> and the denormalised \<open>contactName\<close>.
\<close>

record Conversation =
  contactPhone :: string
  contactName :: string

text \<open>The state of the database: both tables and the next id to hand out.\<close>

record store =
  contacts :: "Contact list"
  conversations :: "Conversation list"
  nextId :: nat

text \<open>
  Modelled from the spec: \<open>CreateContactDto\<close>, declared outside the service. The input
  of the upsert carries the phone and, optionally, name, cpf and segment.
\<close>

record CreateContactDto =
  new_phone :: string
  new_name :: "string option"
  new_cpf :: "string option"
  new_segment :: "int option"

text \<open>
  Modelled from the spec: \<open>UpdateContactDto\<close>, declared outside the service. A patch
  carries optional attributes of the contact; the service reads \<open>name\<close> and \<open>isCPC\<close>
  of it.
\<close>

record UpdateContactDto =
  upd_name :: "string option"
  upd_cpf :: "string option"
  upd_segment :: "int option"
  upd_isCPC :: "bool option"

text \<open>
  The \<open>data\<close> argument of an update: each field is absent (\<open>None\<close>) or holds the new
  value. \<open>updateByPhone\<close> adds \<open>lastCPCAt\<close> and \<open>isNameManual\<close> to its patch before
  passing it on.
\<close>

record contact_data =
  d_phone :: "string option"
  d_name :: "string option"
  d_cpf :: "string option"
  d_segment :: "int option"
  d_isCPC :: "bool option"
  d_lastCPCAt :: "nat option option"
  d_isNameManual :: "bool option"

datatype error = NotFoundException string | PrismaError string

definition orKeep :: "'a option \<Rightarrow> 'a \<Rightarrow> 'a" where
  "orKeep v old = (case v of None \<Rightarrow> old | Some x \<Rightarrow> x)"

definition orKeepOpt :: "'a option \<Rightarrow> 'a option \<Rightarrow> 'a option" where
  "orKeepOpt v old = (case v of None \<Rightarrow> old | Some x \<Rightarrow> Some x)"

definition applyData :: "contact_data \<Rightarrow> Contact \<Rightarrow> Contact" where
  "applyData d c =
     c\<lparr>phone := orKeep (d_phone d) (phone c),
       name := orKeepOpt (d_name d) (name c),
       cpf := orKeepOpt (d_cpf d) (cpf c),
       segment := orKeepOpt (d_segment d) (segment c),
       isCPC := orKeep (d_isCPC d) (isCPC c),
       lastCPCAt := orKeep (d_lastCPCAt d) (lastCPCAt c),
       isNameManual := orKeep (d_isNameManual d) (isNameManual c)\<rparr>"

definition createData :: "CreateContactDto \<Rightarrow> contact_data" where
  "createData dto =
     \<lparr>d_phone = Some (new_phone dto), d_name = new_name dto, d_cpf = new_cpf dto,
      d_segment = new_segment dto, d_isCPC = None, d_lastCPCAt = None,
      d_isNameManual = None\<rparr>"

definition updateData :: "UpdateContactDto \<Rightarrow> contact_data" where
  "updateData dto =
     \<lparr>d_phone = None, d_name = upd_name dto, d_cpf = upd_cpf dto,
      d_segment = upd_segment dto, d_isCPC = upd_isCPC dto, d_lastCPCAt = None,
      d_isNameManual = None\<rparr>"

text \<open>
  The queries of the database client. A lookup returns the first matching row. An
  update of a missing row and a write that would give two rows one phone fail, and a
  failed write leaves the store as it was. A created row takes the next id, the current
  time as \<open>createdAt\<close>, and the schema's defaults for the flags and the timestamp.
\<close>

definition contact_findByPhone :: "string \<Rightarrow> store \<Rightarrow> Contact option" where
  "contact_findByPhone p db = find (\<lambda>c. phone c = p) (contacts db)"

definition contact_findById :: "nat \<Rightarrow> store \<Rightarrow> Contact option" where
  "contact_findById i db = find (\<lambda>c. contact_id c = i) (contacts db)"

definition contact_update :: "nat \<Rightarrow> contact_data \<Rightarrow> store \<Rightarrow> error + Contact \<times> store" where
  "contact_update i d db =
     (case contact_findById i db of
        None \<Rightarrow> Inl (PrismaError ''P2025'')
      | Some c \<Rightarrow>
          if list_ex (\<lambda>c'. contact_id c' \<noteq> i \<and> d_phone d = Some (phone c')) (contacts db)
          then Inl (PrismaError ''P2002'')
          else Inr (applyData d c,
                    db\<lparr>contacts :=
                         map (\<lambda>x. if contact_id x = i then applyData d x else x) (contacts db)\<rparr>))"

definition contact_create :: "CreateContactDto \<Rightarrow> nat \<Rightarrow> store \<Rightarrow> error + Contact \<times> store" where
  "contact_create dto now db =
     (if list_ex (\<lambda>c'. phone c' = new_phone dto) (contacts db)
      then Inl (PrismaError ''P2002'')
      else
        (let c = \<lparr>contact_id = nextId db, phone = new_phone dto, name = new_name dto,
                  cpf = new_cpf dto, segment = new_segment dto, isCPC = False,
                  lastCPCAt = None, isNameManual = False, createdAt = now\<rparr>
         in Inr (c, db\<lparr>contacts := contacts db @ [c], nextId := Suc (nextId db)\<rparr>)))"

definition contact_delete :: "nat \<Rightarrow> store \<Rightarrow> error + Contact \<times> store" where
  "contact_delete i db =
     (case contact_findById i db of
        None \<Rightarrow> Inl (PrismaError ''P2025'')
      | Some c \<Rightarrow> Inr (c, db\<lparr>contacts := filter (\<lambda>x. contact_id x \<noteq> i) (contacts db)\<rparr>))"

definition conversation_updateMany ::
  "(Conversation \<Rightarrow> bool) \<Rightarrow> string \<Rightarrow> store \<Rightarrow> store" where
  "conversation_updateMany wh newName db =
     db\<lparr>conversations :=
          map (\<lambda>v. if wh v then v\<lparr>contactName := newName\<rparr> else v) (conversations db)\<rparr>"

text \<open>
  The text filters of the database client. The service hands the search text to the
  client as it is (\<open>contains: search\<close>, for the name with \<open>mode: 'insensitive'\<close>), and
  what the database then counts as contained (pattern characters in the search text,
  the case folding of its locale) is not decided by the service. The two filters are
  therefore parameters, each a test of a column value against the search text. A null
  column matches no filter.
\<close>

type_synonym text_filter = "string \<Rightarrow> string \<Rightarrow> bool"

definition columnMatches :: "text_filter \<Rightarrow> string option \<Rightarrow> string \<Rightarrow> bool" where
  "columnMatches f column s = (case column of None \<Rightarrow> False | Some v \<Rightarrow> f v s)"

definition contact_findMany :: "(Contact \<Rightarrow> bool) \<Rightarrow> store \<Rightarrow> Contact list" where
  "contact_findMany wh db = rev (sort_key createdAt (filter wh (contacts db)))"

subsection \<open>The service\<close>

text \<open>
  \<open>String.prototype.trim\<close> removes the white space and line terminators at both ends;
  below 256 these are the code units 9 to 13, 32 and 160.
\<close>

definition isWhiteSpace :: "char \<Rightarrow> bool" where
  "isWhiteSpace c \<longleftrightarrow> (of_char c :: nat) \<in> {9, 10, 11, 12, 13, 32, 160}"

definition trim :: "string \<Rightarrow> string" where
  "trim s = rev (dropWhile isWhiteSpace (rev (dropWhile isWhiteSpace s)))"

definition create :: "CreateContactDto \<Rightarrow> nat \<Rightarrow> store \<Rightarrow> error + Contact \<times> store" where
  "create createContactDto now db =
     (case contact_findByPhone (new_phone createContactDto) db of
        Some existingContact \<Rightarrow>
          (case contact_update (contact_id existingContact) (createData createContactDto) db of
             Inl e \<Rightarrow> Inl e
           | Inr (updated, db1) \<Rightarrow>
               Inr (updated,
                    (case new_name createContactDto of
                       None \<Rightarrow> db1
                     | Some n \<Rightarrow>
                         if n \<noteq> [] \<and> trim n \<noteq> []
                         then conversation_updateMany
                                (\<lambda>v. contactPhone v = phone existingContact
                                      \<and> contactName v = ''Desconhecido'') n db1
                         else db1)))
      | None \<Rightarrow>
          (case contact_create createContactDto now db of
             Inl e \<Rightarrow> Inl e
           | Inr (contact, db1) \<Rightarrow>
               Inr (contact,
                    (case new_name createContactDto of
                       None \<Rightarrow> db1
                     | Some n \<Rightarrow>
                         if n \<noteq> [] \<and> trim n \<noteq> []
                         then conversation_updateMany
                                (\<lambda>v. contactPhone v = phone contact
                                      \<and> contactName v = ''Desconhecido'') n db1
                         else db1))))"

text \<open>
  \<open>search && {...}\<close> and \<open>segment && {...}\<close> add a condition only for a truthy
  argument: a non-empty string, a number other than 0.
\<close>

definition findAll_where ::
  "text_filter \<Rightarrow> text_filter \<Rightarrow> string option \<Rightarrow> int option \<Rightarrow> Contact \<Rightarrow> bool" where
  "findAll_where contains containsInsensitive search seg c \<longleftrightarrow>
     (case search of
        None \<Rightarrow> True
      | Some s \<Rightarrow>
          if s \<noteq> []
          then columnMatches containsInsensitive (name c) s \<or> contains (phone c) s
               \<or> columnMatches contains (cpf c) s
          else True)
     \<and> (case seg of
          None \<Rightarrow> True
        | Some g \<Rightarrow> if g \<noteq> 0 then segment c = Some g else True)"

definition findAll ::
  "text_filter \<Rightarrow> text_filter \<Rightarrow> string option \<Rightarrow> int option \<Rightarrow> store \<Rightarrow> Contact list" where
  "findAll contains containsInsensitive search seg db =
     contact_findMany (findAll_where contains containsInsensitive search seg) db"

definition notFoundById :: "nat \<Rightarrow> string" where
  "notFoundById i = ''Contato com ID '' @ decimal i @ '' n'' @ [CHR 0xE3] @ ''o encontrado''"

definition notFoundByPhone :: "string \<Rightarrow> string" where
  "notFoundByPhone p =
     ''Contato com telefone '' @ p @ '' n'' @ [CHR 0xE3] @ ''o encontrado''"

definition findOne :: "nat \<Rightarrow> store \<Rightarrow> error + Contact" where
  "findOne i db =
     (case contact_findById i db of
        None \<Rightarrow> Inl (NotFoundException (notFoundById i))
      | Some contact \<Rightarrow> Inr contact)"

definition findByPhone :: "string \<Rightarrow> store \<Rightarrow> Contact option" where
  "findByPhone p db = contact_findByPhone p db"

definition update :: "nat \<Rightarrow> UpdateContactDto \<Rightarrow> store \<Rightarrow> error + Contact \<times> store" where
  "update i updateContactDto db =
     (case findOne i db of
        Inl e \<Rightarrow> Inl e
      | Inr contact \<Rightarrow>
          (case contact_update i (updateData updateContactDto) db of
             Inl e \<Rightarrow> Inl e
           | Inr (updatedContact, db1) \<Rightarrow>
               Inr (updatedContact,
                    (case upd_name updateContactDto of
                       None \<Rightarrow> db1
                     | Some n \<Rightarrow>
                         if Some n \<noteq> name contact
                         then conversation_updateMany
                                (\<lambda>v. contactPhone v = phone contact) n db1
                         else db1))))"

definition updateByPhone_data :: "UpdateContactDto \<Rightarrow> Contact \<Rightarrow> nat \<Rightarrow> contact_data" where
  "updateByPhone_data updateContactDto contact now =
     (let d0 = updateData updateContactDto;
          d1 = (if upd_isCPC updateContactDto = Some True
                then d0\<lparr>d_lastCPCAt := Some (Some now)\<rparr>
                else if upd_isCPC updateContactDto = Some False
                then d0\<lparr>d_lastCPCAt := Some None\<rparr>
                else d0)
      in (case upd_name updateContactDto of
            None \<Rightarrow> d1
          | Some n \<Rightarrow> if Some n \<noteq> name contact then d1\<lparr>d_isNameManual := Some True\<rparr> else d1))"

definition updateByPhone ::
  "string \<Rightarrow> UpdateContactDto \<Rightarrow> nat \<Rightarrow> store \<Rightarrow> error + Contact \<times> store" where
  "updateByPhone ph updateContactDto now db =
     (case findByPhone ph db of
        None \<Rightarrow> Inl (NotFoundException (notFoundByPhone ph))
      | Some contact \<Rightarrow>
          (case contact_update (contact_id contact)
                  (updateByPhone_data updateContactDto contact now) db of
             Inl e \<Rightarrow> Inl e
           | Inr (updatedContact, db1) \<Rightarrow>
               Inr (updatedContact,
                    (case upd_name updateContactDto of
                       None \<Rightarrow> db1
                     | Some n \<Rightarrow>
                         if Some n \<noteq> name contact
                         then conversation_updateMany (\<lambda>v. contactPhone v = ph) n db1
                         else db1))))"

definition remove :: "nat \<Rightarrow> store \<Rightarrow> error + Contact \<times> store" where
  "remove i db =
     (case findOne i db of
        Inl e \<Rightarrow> Inl e
      | Inr contact \<Rightarrow> contact_delete i db)"

section \<open>Notions used by the properties\<close>

text \<open>
  The parameters of a query string are its pieces between \<open>&\<close>; the name of a
  parameter is the part before its first \<open>=\<close>.
\<close>

fun splitOn :: "char \<Rightarrow> string \<Rightarrow> string list" where
  "splitOn sep [] = [] # []"
| "splitOn sep (c # cs) =
     (if c = sep then [] # splitOn sep cs
      else (case splitOn sep cs of [] \<Rightarrow> [c] # [] | p # ps \<Rightarrow> (c # p) # ps))"

definition queryParamNames :: "string \<Rightarrow> string list" where
  "queryParamNames q = map (takeWhile (\<lambda>c. c \<noteq> CHR ''='')) (splitOn (CHR ''&'') q)"

text \<open>
  The schema's constraints: ids and phones identify one row each, and the id generator
  is ahead of every id in use.
\<close>

definition wf_store :: "store \<Rightarrow> bool" where
  "wf_store db \<longleftrightarrow>
     distinct (map contact_id (contacts db)) \<and> distinct (map phone (contacts db))
     \<and> list_all (\<lambda>c. contact_id c < nextId db) (contacts db)"

subsection \<open>Example data\<close>

definition exampleService :: CpcValidationService where
  "exampleService =
     \<lparr>apiUrl = ''https://partner.example/api'', apiUser = ''Vend'', apiPassword = ''pw'',
      enabled = True, authHeader = ''Basic VmVuZDpwdw==''\<rparr>"

text \<open>A partner that rejects every request with the same error, and one that plays a script.\<close>

definition rejectWith :: "AxiosError \<Rightarrow> axios" where
  "rejectWith e calls rq = Inl e"

definition scripted :: "(AxiosError + CpcApiResponse) list \<Rightarrow> axios" where
  "scripted answers calls rq =
     (case drop (length calls) answers of
        [] \<Rightarrow> Inl \<lparr>response = None, request = True, message = []\<rparr>
      | a # _ \<Rightarrow> a)"

definition emptyStatusError :: AxiosError where
  "emptyStatusError =
     \<lparr>response = Some \<lparr>status = 500, data_mensagem = Some []\<rparr>, request = True,
      message = ''Request failed with status code 500''\<rparr>"

definition ana :: Contact where
  "ana =
     \<lparr>contact_id = 1, phone = ''5511999999999'', name = Some ''Ana'', cpf = None,
      segment = Some 5, isCPC = False, lastCPCAt = None, isNameManual = True,
      createdAt = 100\<rparr>"

definition exampleStore :: store where
  "exampleStore =
     \<lparr>contacts = [ana],
      conversations =
        [\<lparr>contactPhone = ''5511999999999'', contactName = ''Desconhecido''\<rparr>,
         \<lparr>contactPhone = ''5511999999999'', contactName = ''Unknown''\<rparr>,
         \<lparr>contactPhone = ''5511888888888'', contactName = ''Desconhecido''\<rparr>],
      nextId = 2\<rparr>"

text \<open>
  A stand-in for the database's text filters in the examples: plain substring search.
  The properties below are proved for every pair of filters.
\<close>

definition substringMatch :: text_filter where
  "substringMatch v s = sublist s v"

definition emptyPatch :: UpdateContactDto where
  "emptyPatch = \<lparr>upd_name = None, upd_cpf = None, upd_segment = None, upd_isCPC = None\<rparr>"

definition cpcPatch :: UpdateContactDto where
  "cpcPatch = \<lparr>upd_name = None, upd_cpf = None, upd_segment = None, upd_isCPC = Some True\<rparr>"

definition anaDto :: CreateContactDto where
  "anaDto =
     \<lparr>new_phone = ''5511999999999'', new_name = Some ''Ana'', new_cpf = None,
      new_segment = None\<rparr>"

definition unknownStore :: store where
  "unknownStore =
     \<lparr>contacts = [],
      conversations = [\<lparr>contactPhone = ''5511999999999'', contactName = ''Unknown''\<rparr>],
      nextId = 1\<rparr>"

definition biaPatch :: UpdateContactDto where
  "biaPatch = \<lparr>upd_name = Some ''Bia'', upd_cpf = None, upd_segment = None, upd_isCPC = None\<rparr>"

definition biaDto :: CreateContactDto where
  "biaDto =
     \<lparr>new_phone = ''5511999999999'', new_name = Some ''Bia'', new_cpf = Some ''12345678900'',
      new_segment = None\<rparr>"

section \<open>Properties of CpcValidationService\<close>

subsection \<open>Phone normalisation\<close>

lemma filter_isDigit_drop:
  "filter isDigit (drop n (filter isDigit p)) = drop n (filter isDigit p)"
  by (rule filter_True) (auto dest: in_set_dropD)

lemma prefix_55_iff: "prefix ''55'' c \<longleftrightarrow> (\<exists>d. c = CHR ''5'' # CHR ''5'' # d)"
  by (auto simp: prefix_def)

lemma formatPhone_of_digits:
  "formatPhoneForPartner (filter isDigit p) = formatPhoneForPartner p"
  by (simp add: formatPhoneForPartner_def Let_def)

lemma drop_2_shorter: "length d > 11 \<Longrightarrow> drop 2 d \<noteq> d"
proof
  assume "length d > 11" and "drop 2 d = d"
  from this(2) have "length (drop 2 d) = length d" by simp
  with \<open>length d > 11\<close> show False by simp
qed

text \<open>
  C5, amended. Normalising twice gives the result of normalising once exactly when the
  digits of the phone do not both start with \<open>5555\<close> and number more than 13; so it
  does for every phone of at most 13 digits. Here \<open>formatPhoneForPartner\<close> keeps the
  digits and drops a leading \<open>55\<close> when there are more than 11 of them.
\<close>

theorem formatPhone_idempotent_iff:
  "formatPhoneForPartner (formatPhoneForPartner p) = formatPhoneForPartner p
   \<longleftrightarrow> \<not> (prefix ''5555'' (filter isDigit p) \<and> length (filter isDigit p) > 13)"
proof (cases "prefix ''55'' (filter isDigit p) \<and> length (filter isDigit p) > 11")
  case False
  then have "formatPhoneForPartner p = filter isDigit p"
    by (auto simp: formatPhoneForPartner_def Let_def)
  moreover have "\<not> (prefix ''5555'' (filter isDigit p) \<and> length (filter isDigit p) > 13)"
    using False by (auto simp: prefix_def)
  ultimately show ?thesis by (simp add: formatPhone_of_digits)
next
  case True
  then obtain d where c: "filter isDigit p = CHR ''5'' # CHR ''5'' # d"
    by (auto simp: prefix_55_iff)
  have d: "filter isDigit d = d"
    using filter_isDigit_drop [of 2 p] by (simp add: c)
  have fp: "formatPhoneForPartner p = d"
    using True by (simp add: formatPhoneForPartner_def c Let_def)
  have "formatPhoneForPartner d = d \<longleftrightarrow> \<not> (prefix ''55'' d \<and> length d > 11)"
    using drop_2_shorter [of d] by (auto simp: formatPhoneForPartner_def d Let_def)
  then show ?thesis
    by (simp add: fp c)
qed

theorem formatPhone_idempotent_iff_witness:
  "formatPhoneForPartner (formatPhoneForPartner ''+55 11 91234-5678'')
     = formatPhoneForPartner ''+55 11 91234-5678''
   \<and> formatPhoneForPartner ''+55 11 91234-5678'' = ''11912345678''"
  using formatPhone_idempotent_iff [of "''+55 11 91234-5678''"]
  by (simp add: formatPhoneForPartner_def isDigit_def)

text \<open>
  Idempotence fails on 14 digits starting with \<open>5555\<close>: the first pass leaves 12 digits
  that start with \<open>55\<close>, and the second pass drops two more.
\<close>

theorem formatPhone_not_idempotent:
  "formatPhoneForPartner (formatPhoneForPartner ''55551234567890'')
     \<noteq> formatPhoneForPartner ''55551234567890''"
  by (simp add: formatPhoneForPartner_def isDigit_def)

subsection \<open>The disabled gate\<close>

lemma not_enabled_results:
  assumes "\<not> isEnabled svc"
  shows "validateContract svc ax contract seg optPhone calls
           = (Inr \<lparr>sucesso = True, mensagem = ''CPC API desabilitada''\<rparr>, calls)"
    and "checkAcionamento svc ax contract ph seg calls
           = (Inr \<lparr>sucesso = True, mensagem = ''CPC API desabilitada''\<rparr>, calls)"
    and "registerAcionamento svc ax contract ph seg calls
           = (Inr \<lparr>sucesso = True, mensagem = ''CPC API desabilitada''\<rparr>, calls)"
    and "canContact svc ax contract ph seg calls
           = (Inr \<lparr>allowed = True, reason = ''CPC API desabilitada''\<rparr>, calls)"
  using assms
  by (simp_all add: validateContract_def checkAcionamento_def registerAcionamento_def
      canContact_def)

lemma isEnabled_new:
  "isEnabled (newCpcValidationService base64 config)
   \<longleftrightarrow> config ''CPC_API_ENABLED'' = Some ''true''
       \<and> config ''CPC_API_URL'' \<noteq> None \<and> config ''CPC_API_URL'' \<noteq> Some []"
  by (auto simp: isEnabled_def newCpcValidationService_def Let_def orDefault_def
      split: option.splits)

text \<open>
  C3. When the enabled flag of the configuration is not \<open>true\<close>, or the base URL is
  unset or empty, each of \<open>validateContract\<close>, \<open>checkAcionamento\<close>,
  \<open>registerAcionamento\<close> and \<open>canContact\<close> resolves with the success or allowed
  result, and the list of requests issued is the one it started with: no network call.
\<close>

theorem disabled_gate_is_permissive:
  assumes "config ''CPC_API_ENABLED'' \<noteq> Some ''true''
           \<or> config ''CPC_API_URL'' = None \<or> config ''CPC_API_URL'' = Some []"
    and "svc = newCpcValidationService base64 config"
  shows "validateContract svc ax contract seg optPhone calls
           = (Inr \<lparr>sucesso = True, mensagem = ''CPC API desabilitada''\<rparr>, calls)
       \<and> checkAcionamento svc ax contract ph seg calls
           = (Inr \<lparr>sucesso = True, mensagem = ''CPC API desabilitada''\<rparr>, calls)
       \<and> registerAcionamento svc ax contract ph seg calls
           = (Inr \<lparr>sucesso = True, mensagem = ''CPC API desabilitada''\<rparr>, calls)
       \<and> canContact svc ax contract ph seg calls
           = (Inr \<lparr>allowed = True, reason = ''CPC API desabilitada''\<rparr>, calls)"
proof -
  have "\<not> isEnabled svc"
    using assms by (auto simp: isEnabled_new)
  then show ?thesis
    by (simp add: not_enabled_results)
qed

theorem disabled_gate_is_permissive_witness:
  "[''CPC_API_ENABLED'' \<mapsto> ''true''] ''CPC_API_URL'' = None
   \<and> canContact (newCpcValidationService rev [''CPC_API_ENABLED'' \<mapsto> ''true''])
        (rejectWith emptyStatusError) ''C1'' ''5511999999999'' ''seg'' []
     = (Inr \<lparr>allowed = True, reason = ''CPC API desabilitada''\<rparr>, [])
   \<and> registerAcionamento (newCpcValidationService rev [''CPC_API_ENABLED'' \<mapsto> ''true''])
        (rejectWith emptyStatusError) ''C1'' ''5511999999999'' ''seg'' []
     = (Inr \<lparr>sucesso = True, mensagem = ''CPC API desabilitada''\<rparr>, [])"
proof -
  have url: "[''CPC_API_ENABLED'' \<mapsto> ''true''] ''CPC_API_URL'' = None"
    by simp
  then have "[''CPC_API_ENABLED'' \<mapsto> ''true''] ''CPC_API_ENABLED'' \<noteq> Some ''true''
           \<or> [''CPC_API_ENABLED'' \<mapsto> ''true''] ''CPC_API_URL'' = None
           \<or> [''CPC_API_ENABLED'' \<mapsto> ''true''] ''CPC_API_URL'' = Some []"
    by blast
  from disabled_gate_is_permissive [OF this refl] url show ?thesis
    by blast
qed

subsection \<open>The query string of validateContract\<close>

lemma digitChar_cases: "digitChar d \<in> set ''0123456789ABCDEF''"
proof -
  have "d mod 16 < length ''0123456789ABCDEF''" by simp
  then show ?thesis unfolding digitChar_def by (rule nth_mem)
qed

lemma amp_not_hex: "digitChar d \<noteq> CHR ''&''"
  using digitChar_cases [of d] by auto

lemma amp_notin_pctByte: "CHR ''&'' \<notin> set (pctByte b)"
  using amp_not_hex [of "b div 16"] amp_not_hex [of "b mod 16"]
  by (auto simp: pctByte_def)

lemma amp_reserved: "\<not> uriUnreserved (CHR ''&'')"
  by (simp add: uriUnreserved_def isAlpha_def isDigit_def)

lemma amp_notin_encodeUnit: "CHR ''&'' \<notin> set (encodeUnit c)"
  using amp_reserved by (auto simp: encodeUnit_def Let_def amp_notin_pctByte)

lemma amp_notin_encodeURIComponent: "CHR ''&'' \<notin> set (encodeURIComponent s)"
  by (simp add: encodeURIComponent_def amp_notin_encodeUnit)

lemma splitOn_not_Nil: "splitOn sep s \<noteq> []"
  by (induction s) (auto split: list.splits)

lemma splitOn_no_sep: "sep \<notin> set s \<Longrightarrow> splitOn sep s = [s]"
  by (induction s) auto

lemma splitOn_append_sep:
  "sep \<notin> set a \<Longrightarrow> splitOn sep (a @ sep # b) = a # splitOn sep b"
  by (induction a) auto

lemma queryParamNames_two:
  assumes "CHR ''&'' \<notin> set a" and "CHR ''&'' \<notin> set b"
  shows "queryParamNames (''contrato='' @ a @ ''&segmento='' @ b) = [''contrato'', ''segmento'']"
proof -
  have 1: "CHR ''&'' \<notin> set (''contrato='' @ a)" using assms by simp
  have 2: "CHR ''&'' \<notin> set (''segmento='' @ b)" using assms by simp
  have "splitOn (CHR ''&'') ((''contrato='' @ a) @ CHR ''&'' # (''segmento='' @ b))
          = [''contrato='' @ a, ''segmento='' @ b]"
    by (simp only: splitOn_append_sep [OF 1] splitOn_no_sep [OF 2])
  then show ?thesis
    by (simp add: queryParamNames_def)
qed

text \<open>
  C9. With the empty string as phone, the query string of \<open>validateContract\<close> is the one
  of a call without phone: its parameters are \<open>contrato\<close> and \<open>segmento\<close> and no
  \<open>telefone\<close>, and the whole call (the request issued, the result) is that of the call
  without phone.
\<close>

theorem validateContract_empty_phone:
  "validateContract_queryString contract seg (Some [])
     = ''contrato='' @ encodeURIComponent contract @ ''&segmento='' @ encodeURIComponent seg
   \<and> validateContract_queryString contract seg (Some [])
     = validateContract_queryString contract seg None
   \<and> queryParamNames (validateContract_queryString contract seg (Some []))
     = [''contrato'', ''segmento'']
   \<and> validateContract_request svc contract seg (Some [])
     = validateContract_request svc contract seg None
   \<and> validateContract svc ax contract seg (Some []) calls
     = validateContract svc ax contract seg None calls
   \<and> snd (validateContract svc ax contract seg (Some []) calls)
     = (if isEnabled svc
        then calls @ [\<lparr>req_method = GET,
                       req_url = apiUrl svc @ ''/validate-contract?contrato=''
                                 @ encodeURIComponent contract @ ''&segmento=''
                                 @ encodeURIComponent seg,
                       req_body = None,
                       req_headers = [(''Authorization'', authHeader svc)],
                       req_timeout = 30000\<rparr>]
        else calls)"
proof -
  have q: "validateContract_queryString contract seg (Some [])
     = ''contrato='' @ encodeURIComponent contract @ ''&segmento='' @ encodeURIComponent seg"
    by (simp add: validateContract_queryString_def)
  have n: "validateContract_queryString contract seg None
     = ''contrato='' @ encodeURIComponent contract @ ''&segmento='' @ encodeURIComponent seg"
    by (simp add: validateContract_queryString_def)
  have names: "queryParamNames (validateContract_queryString contract seg (Some []))
     = [''contrato'', ''segmento'']"
    unfolding q
    by (rule queryParamNames_two) (rule amp_notin_encodeURIComponent)+
  have r: "validateContract_request svc contract seg (Some [])
     = validateContract_request svc contract seg None"
    by (simp add: validateContract_request_def q n)
  have v: "validateContract svc ax contract seg (Some []) calls
     = validateContract svc ax contract seg None calls"
    by (simp add: validateContract_def r)
  have "snd (validateContract svc ax contract seg (Some []) calls)
     = (if isEnabled svc
        then calls @ [\<lparr>req_method = GET,
                       req_url = apiUrl svc @ ''/validate-contract?contrato=''
                                 @ encodeURIComponent contract @ ''&segmento=''
                                 @ encodeURIComponent seg,
                       req_body = None,
                       req_headers = [(''Authorization'', authHeader svc)],
                       req_timeout = 30000\<rparr>]
        else calls)"
    by (simp add: validateContract_def validateContract_request_def q axios_call_def
        split: sum.splits)
  with q n names r v show ?thesis by simp
qed

theorem validateContract_empty_phone_witness:
  "validateContract_queryString ''C 1&telefone=9'' ''seg'' (Some [])
     = ''contrato=C%201%26telefone%3D9&segmento=seg''
   \<and> queryParamNames (validateContract_queryString ''C 1&telefone=9'' ''seg'' (Some []))
     = [''contrato'', ''segmento'']"
proof -
  have e: "validateContract_queryString ''C 1&telefone=9'' ''seg'' (Some [])
          = ''contrato=C%201%26telefone%3D9&segmento=seg''"
    by (simp add: validateContract_queryString_def encodeURIComponent_def encodeUnit_def
        uriUnreserved_def isAlpha_def isDigit_def pctByte_def digitChar_def)
  have n: "queryParamNames (validateContract_queryString ''C 1&telefone=9'' ''seg'' (Some []))
          = [''contrato'', ''segmento'']"
    using validateContract_empty_phone
      [of "''C 1&telefone=9''" "''seg''" exampleService "rejectWith emptyStatusError" "[]"]
    by (elim conjE)
  show ?thesis
    by (intro conjI) (fact e, fact n)
qed



subsection \<open>The composite decision\<close>

lemma validateContract_enabled:
  assumes "isEnabled svc"
  shows "validateContract svc ax contract seg optPhone calls
         = (Inr (case ax calls (validateContract_request svc contract seg optPhone) of
                   Inr data \<Rightarrow> data
                 | Inl e \<Rightarrow> handleApiError e ''validate-contract''),
            calls @ [validateContract_request svc contract seg optPhone])"
  using assms by (simp add: validateContract_def axios_call_def split: sum.splits)

lemma checkAcionamento_enabled:
  assumes "isEnabled svc"
  shows "checkAcionamento svc ax contract ph seg calls
         = (Inr (case ax calls (checkAcionamento_request svc contract ph seg) of
                   Inr data \<Rightarrow> data
                 | Inl e \<Rightarrow> handleApiError e ''check-acionamento''),
            calls @ [checkAcionamento_request svc contract ph seg])"
  using assms by (simp add: checkAcionamento_def axios_call_def split: sum.splits)

lemma registerAcionamento_enabled:
  assumes "isEnabled svc"
  shows "registerAcionamento svc ax contract ph seg calls
         = (Inr (case ax calls (registerAcionamento_request svc contract ph seg) of
                   Inr data \<Rightarrow> data
                 | Inl e \<Rightarrow> handleApiError e ''register-acionamento''),
            calls @ [registerAcionamento_request svc contract ph seg])"
  using assms by (simp add: registerAcionamento_def axios_call_def split: sum.splits)

lemma validateContract_resolves:
  "\<exists>r calls'. validateContract svc ax contract seg optPhone calls = (Inr r, calls')"
  by (cases "isEnabled svc") (simp_all add: validateContract_enabled not_enabled_results)

lemma checkAcionamento_resolves:
  "\<exists>r calls'. checkAcionamento svc ax contract ph seg calls = (Inr r, calls')"
  by (cases "isEnabled svc") (simp_all add: checkAcionamento_enabled not_enabled_results)

lemma registerAcionamento_resolves:
  "\<exists>r calls'. registerAcionamento svc ax contract ph seg calls = (Inr r, calls')"
  by (cases "isEnabled svc") (simp_all add: registerAcionamento_enabled not_enabled_results)

lemma canContact_resolves:
  "\<exists>r calls'. canContact svc ax contract ph seg calls = (Inr r, calls')"
  by (cases "isEnabled svc")
    (simp_all add: canContact_def validateContract_enabled checkAcionamento_enabled)


text \<open>
  C1. With the gate enabled, \<open>canContact\<close> first performs \<open>validateContract\<close> (with the
  phone). When that result has \<open>sucesso = false\<close>, the answer is not allowed, with that
  result's \<open>mensagem\<close>, and the only request issued is the one of \<open>validateContract\<close>: no
  request of \<open>checkAcionamento\<close>. Otherwise \<open>checkAcionamento\<close> is performed next, on
  the state \<open>validateContract\<close> left; the answer is not allowed with its \<open>mensagem\<close> when
  it has \<open>sucesso = false\<close>, and allowed with the fixed reason otherwise. Every request
  issued is a GET, so none is the POST of \<open>registerAcionamento\<close>.
\<close>

theorem canContact_decision:
  assumes "isEnabled svc"
  shows "\<exists>v calls1.
           validateContract svc ax contract seg (Some ph) calls = (Inr v, calls1)
         \<and> calls1 = calls @ [validateContract_request svc contract seg (Some ph)]
         \<and> (if \<not> sucesso v
            then canContact svc ax contract ph seg calls
                   = (Inr \<lparr>allowed = False, reason = mensagem v\<rparr>, calls1)
                 \<and> checkAcionamento_request svc contract ph seg \<notin> set (drop (length calls) calls1)
            else (\<exists>a calls2.
                    checkAcionamento svc ax contract ph seg calls1 = (Inr a, calls2)
                  \<and> calls2 = calls1 @ [checkAcionamento_request svc contract ph seg]
                  \<and> (if \<not> sucesso a
                     then canContact svc ax contract ph seg calls
                            = (Inr \<lparr>allowed = False, reason = mensagem a\<rparr>, calls2)
                     else canContact svc ax contract ph seg calls
                            = (Inr \<lparr>allowed = True, reason = ''Cliente pode ser acionado''\<rparr>,
                               calls2))))
         \<and> list_all (\<lambda>rq. req_method rq = GET)
              (drop (length calls) (snd (canContact svc ax contract ph seg calls)))
         \<and> registerAcionamento_request svc c' p' s'
              \<notin> set (drop (length calls) (snd (canContact svc ax contract ph seg calls)))"
proof -
  have neq: "checkAcionamento_request svc contract ph seg
               \<noteq> validateContract_request svc contract seg (Some ph)"
    by (simp add: checkAcionamento_request_def validateContract_request_def)
  have get: "req_method (validateContract_request svc contract seg (Some ph)) = GET"
    "req_method (checkAcionamento_request svc contract ph seg) = GET"
    "req_method (registerAcionamento_request svc c' p' s') = POST"
    by (simp_all add: checkAcionamento_request_def validateContract_request_def
        registerAcionamento_request_def)
  have post: "registerAcionamento_request svc c' p' s'
                \<noteq> validateContract_request svc contract seg (Some ph)"
    "registerAcionamento_request svc c' p' s' \<noteq> checkAcionamento_request svc contract ph seg"
    using get by (metis http_method.distinct(1))+
  show ?thesis
    using assms neq get post
    by (simp add: canContact_def validateContract_enabled checkAcionamento_enabled)
qed


lemma exampleService_enabled: "isEnabled exampleService"
  by (simp add: isEnabled_def exampleService_def)

theorem canContact_decision_witness:
  "isEnabled exampleService
   \<and> validateContract exampleService
        (scripted [Inr \<lparr>sucesso = False, mensagem = ''contrato inexistente''\<rparr>])
        ''C1'' ''seg'' (Some ''5511999999999'') []
     = (Inr \<lparr>sucesso = False, mensagem = ''contrato inexistente''\<rparr>,
        [validateContract_request exampleService ''C1'' ''seg'' (Some ''5511999999999'')])
   \<and> canContact exampleService
        (scripted [Inr \<lparr>sucesso = False, mensagem = ''contrato inexistente''\<rparr>])
        ''C1'' ''5511999999999'' ''seg'' []
     = (Inr \<lparr>allowed = False, reason = ''contrato inexistente''\<rparr>,
        [validateContract_request exampleService ''C1'' ''seg'' (Some ''5511999999999'')])"
  using canContact_decision
    [OF exampleService_enabled,
      of "scripted [Inr \<lparr>sucesso = False, mensagem = ''contrato inexistente''\<rparr>]"
        "''C1''" "''seg''" "''5511999999999''" "[]"]
  by (auto simp: exampleService_enabled validateContract_enabled scripted_def)

subsection \<open>Error normalisation\<close>

lemma handleApiError_sucesso: "sucesso (handleApiError e endpoint) = False"
  by (simp add: handleApiError_def split: option.splits)

lemma handleApiError_mensagem:
  "mensagem (handleApiError e endpoint)
   = (case response e of
        Some r \<Rightarrow>
          (case data_mensagem r of
             Some m \<Rightarrow> if m \<noteq> [] then m else ''Erro na API: '' @ decimal (status r)
           | None \<Rightarrow> ''Erro na API: '' @ decimal (status r))
      | None \<Rightarrow>
          if request e then ''API CPC indispon'' @ [CHR 0xED] @ ''vel - timeout''
          else ''Erro interno: '' @ message e)"
  by (simp add: handleApiError_def orDefault_def timeoutMessage_def split: option.splits)

text \<open>
  C2, amended. With the gate enabled, a failure of the request of any of the three partner
  calls becomes the result \<open>handleApiError\<close> builds from the error, never a rejection. That
  result has \<open>sucesso = false\<close>; its \<open>mensagem\<close> is, for an error-status response, the
  partner's \<open>mensagem\<close> when that is present and not empty and the generic message with
  the status otherwise; for a request without response, the fixed timeout message; for
  any other error, the internal-error message with the error's detail. All four
  operations resolve.
\<close>

theorem partner_failures_are_normalised:
  assumes "isEnabled svc"
  shows "(ax calls (validateContract_request svc contract seg optPhone) = Inl e \<longrightarrow>
            validateContract svc ax contract seg optPhone calls
            = (Inr (handleApiError e ''validate-contract''),
               calls @ [validateContract_request svc contract seg optPhone]))
       \<and> (ax calls (checkAcionamento_request svc contract ph seg) = Inl e \<longrightarrow>
            checkAcionamento svc ax contract ph seg calls
            = (Inr (handleApiError e ''check-acionamento''),
               calls @ [checkAcionamento_request svc contract ph seg]))
       \<and> (ax calls (registerAcionamento_request svc contract ph seg) = Inl e \<longrightarrow>
            registerAcionamento svc ax contract ph seg calls
            = (Inr (handleApiError e ''register-acionamento''),
               calls @ [registerAcionamento_request svc contract ph seg]))
       \<and> sucesso (handleApiError e endpoint) = False
       \<and> mensagem (handleApiError e endpoint)
         = (case response e of
              Some r \<Rightarrow>
                (case data_mensagem r of
                   Some m \<Rightarrow> if m \<noteq> [] then m else ''Erro na API: '' @ decimal (status r)
                 | None \<Rightarrow> ''Erro na API: '' @ decimal (status r))
            | None \<Rightarrow>
                if request e then ''API CPC indispon'' @ [CHR 0xED] @ ''vel - timeout''
                else ''Erro interno: '' @ message e)
       \<and> (\<exists>r calls'. validateContract svc ax contract seg optPhone calls = (Inr r, calls'))
       \<and> (\<exists>r calls'. checkAcionamento svc ax contract ph seg calls = (Inr r, calls'))
       \<and> (\<exists>r calls'. registerAcionamento svc ax contract ph seg calls = (Inr r, calls'))
       \<and> (\<exists>r calls'. canContact svc ax contract ph seg calls = (Inr r, calls'))"
proof -
  have "ax calls (validateContract_request svc contract seg optPhone) = Inl e \<longrightarrow>
            validateContract svc ax contract seg optPhone calls
            = (Inr (handleApiError e ''validate-contract''),
               calls @ [validateContract_request svc contract seg optPhone])"
    by (simp add: validateContract_enabled [OF assms])
  moreover have "ax calls (checkAcionamento_request svc contract ph seg) = Inl e \<longrightarrow>
            checkAcionamento svc ax contract ph seg calls
            = (Inr (handleApiError e ''check-acionamento''),
               calls @ [checkAcionamento_request svc contract ph seg])"
    by (simp add: checkAcionamento_enabled [OF assms])
  moreover have "ax calls (registerAcionamento_request svc contract ph seg) = Inl e \<longrightarrow>
            registerAcionamento svc ax contract ph seg calls
            = (Inr (handleApiError e ''register-acionamento''),
               calls @ [registerAcionamento_request svc contract ph seg])"
    by (simp add: registerAcionamento_enabled [OF assms])
  ultimately show ?thesis
    using validateContract_resolves [of svc ax contract seg optPhone calls]
      checkAcionamento_resolves [of svc ax contract ph seg calls]
      registerAcionamento_resolves [of svc ax contract ph seg calls]
      canContact_resolves [of svc ax contract ph seg calls]
      handleApiError_sucesso [of e endpoint] handleApiError_mensagem [of e endpoint]
    by blast
qed

lemma decimal_500: "decimal 500 = ''500''"
  by (simp add: decimal.simps digitChar_def)

theorem partner_failures_are_normalised_witness:
  "isEnabled exampleService
   \<and> checkAcionamento exampleService
        (rejectWith \<lparr>response = None, request = True, message = ''timeout of 30000ms exceeded''\<rparr>)
        ''C1'' ''5511999999999'' ''seg'' []
     = (Inr \<lparr>sucesso = False, mensagem = ''API CPC indispon'' @ [CHR 0xED] @ ''vel - timeout''\<rparr>,
        [checkAcionamento_request exampleService ''C1'' ''5511999999999'' ''seg''])"
  using partner_failures_are_normalised
    [OF exampleService_enabled,
      of "rejectWith \<lparr>response = None, request = True, message = ''timeout of 30000ms exceeded''\<rparr>"
        "[]" "''C1''" "''seg''" None
        "\<lparr>response = None, request = True, message = ''timeout of 30000ms exceeded''\<rparr>"
        "''5511999999999''" "''check-acionamento''"]
  by (simp add: exampleService_enabled rejectWith_def handleApiError_def timeoutMessage_def)

text \<open>
  An error-status response whose body carries an empty \<open>mensagem\<close>: the field is present,
  and the result carries the generic message, not the partner's.
\<close>

theorem empty_partner_message_is_replaced:
  "response emptyStatusError = Some \<lparr>status = 500, data_mensagem = Some []\<rparr>
   \<and> validateContract exampleService (rejectWith emptyStatusError) ''C1'' ''seg'' None []
     = (Inr \<lparr>sucesso = False, mensagem = ''Erro na API: 500''\<rparr>,
        [validateContract_request exampleService ''C1'' ''seg'' None])"
  by (simp add: validateContract_enabled [OF exampleService_enabled] rejectWith_def
      handleApiError_def emptyStatusError_def orDefault_def decimal_500)

section \<open>Properties of ContactsService\<close>

subsection \<open>Lookups and updates in a well-formed store\<close>

lemma find_by_key:
  "distinct (map f xs) \<Longrightarrow> x \<in> set xs \<Longrightarrow> find (\<lambda>c. f c = f x) xs = Some x"
  by (induction xs) (auto simp: image_iff)

lemma find_result: "find P xs = Some x \<Longrightarrow> x \<in> set xs \<and> P x"
  by (induction xs) (auto split: if_splits)

lemma find_map_key:
  "(\<And>x. x \<in> set xs \<Longrightarrow> f (g x) = f x)
   \<Longrightarrow> find (\<lambda>c. f c = k) (map g xs) = map_option g (find (\<lambda>c. f c = k) xs)"
  by (induction xs) auto

lemma findByPhone_result:
  "findByPhone ph db = Some c \<Longrightarrow> c \<in> set (contacts db) \<and> phone c = ph"
  unfolding findByPhone_def contact_findByPhone_def by (rule find_result)

lemma findById_of_found:
  "wf_store db \<Longrightarrow> c \<in> set (contacts db) \<Longrightarrow> contact_findById (contact_id c) db = Some c"
  unfolding contact_findById_def wf_store_def by (simp add: find_by_key)

lemma contact_update_found:
  assumes "contact_findById i db = Some c"
    and "\<not> list_ex (\<lambda>c'. contact_id c' \<noteq> i \<and> d_phone d = Some (phone c')) (contacts db)"
  shows "contact_update i d db
         = Inr (applyData d c,
                db\<lparr>contacts :=
                     map (\<lambda>x. if contact_id x = i then applyData d x else x) (contacts db)\<rparr>)"
  using assms by (simp add: contact_update_def)

lemma no_collision_without_phone:
  "d_phone d = None
   \<Longrightarrow> \<not> list_ex (\<lambda>c'. contact_id c' \<noteq> i \<and> d_phone d = Some (phone c')) (contacts db)"
  by (simp add: list_ex_iff)

lemma no_collision_same_phone:
  assumes "wf_store db" and "c \<in> set (contacts db)" and "d_phone d = Some (phone c)"
  shows "\<not> list_ex (\<lambda>c'. contact_id c' \<noteq> contact_id c \<and> d_phone d = Some (phone c'))
             (contacts db)"
proof -
  have "c' = c" if "c' \<in> set (contacts db)" and "phone c' = phone c" for c'
    using assms(1,2) that
    by (metis wf_store_def distinct_map inj_on_def)
  then show ?thesis
    using assms(3) by (auto simp: list_ex_iff)
qed

lemma updateByPhone_data_phone [simp]: "d_phone (updateByPhone_data dto c now) = None"
  by (simp add: updateByPhone_data_def updateData_def Let_def split: option.splits)

lemma updateData_phone [simp]: "d_phone (updateData dto) = None"
  by (simp add: updateData_def)

lemma applyData_keeps_phone: "d_phone d = None \<Longrightarrow> phone (applyData d x) = phone x"
  by (simp add: applyData_def orKeep_def)

lemma conversations_updateMany:
  "conversations (conversation_updateMany wh n db)
   = map (\<lambda>v. if wh v then v\<lparr>contactName := n\<rparr> else v) (conversations db)"
  by (simp add: conversation_updateMany_def)

lemma contacts_updateMany [simp]:
  "contacts (conversation_updateMany wh n db) = contacts db"
  by (simp add: conversation_updateMany_def)

lemma updateByPhone_found:
  assumes "wf_store db" and "findByPhone ph db = Some c"
  shows "updateByPhone ph dto now db
         = Inr (applyData (updateByPhone_data dto c now) c,
                (case upd_name dto of
                   None \<Rightarrow> (\<lambda>s. s)
                 | Some n \<Rightarrow>
                     if Some n \<noteq> name c
                     then conversation_updateMany (\<lambda>v. contactPhone v = ph) n
                     else (\<lambda>s. s))
                  (db\<lparr>contacts :=
                        map (\<lambda>x. if contact_id x = contact_id c
                                  then applyData (updateByPhone_data dto c now) x else x)
                          (contacts db)\<rparr>))"
proof -
  have "contact_findById (contact_id c) db = Some c"
    using assms findByPhone_result findById_of_found by blast
  then have "contact_update (contact_id c) (updateByPhone_data dto c now) db
             = Inr (applyData (updateByPhone_data dto c now) c,
                    db\<lparr>contacts :=
                         map (\<lambda>x. if contact_id x = contact_id c
                                   then applyData (updateByPhone_data dto c now) x else x)
                           (contacts db)\<rparr>)"
    by (rule contact_update_found) (simp add: list_ex_iff)
  then show ?thesis
    using assms(2)
    by (simp add: updateByPhone_def split: option.splits)
qed

lemma findByPhone_after_update:
  assumes "findByPhone ph db = Some c" and "d_phone d = None"
  shows "find (\<lambda>x. phone x = ph)
           (map (\<lambda>x. if contact_id x = contact_id c then applyData d x else x) (contacts db))
         = Some (applyData d c)"
proof -
  have "find (\<lambda>x. phone x = ph)
           (map (\<lambda>x. if contact_id x = contact_id c then applyData d x else x) (contacts db))
        = map_option (\<lambda>x. if contact_id x = contact_id c then applyData d x else x)
            (find (\<lambda>x. phone x = ph) (contacts db))"
    by (rule find_map_key) (simp add: applyData_keeps_phone [OF assms(2)])
  then show ?thesis
    using assms(1) by (simp add: findByPhone_def contact_findByPhone_def)
qed

text \<open>
  C6. For a contact found by phone in a store that respects the schema,
  \<open>updateByPhone\<close> resolves with the updated contact, which is the row stored under that
  phone afterwards. With \<open>isCPC = true\<close> in the patch its \<open>lastCPCAt\<close> is the current time,
  with \<open>isCPC = false\<close> it is null, and with a name other than the stored one its
  \<open>isNameManual\<close> is true (and the name is the new one).
\<close>

theorem updateByPhone_derived_fields:
  assumes "wf_store db" and "findByPhone ph db = Some c"
  shows "\<exists>u db'. updateByPhone ph dto now db = Inr (u, db')
           \<and> findByPhone ph db' = Some u
           \<and> (upd_isCPC dto = Some True \<longrightarrow> isCPC u \<and> lastCPCAt u = Some now)
           \<and> (upd_isCPC dto = Some False \<longrightarrow> \<not> isCPC u \<and> lastCPCAt u = None)
           \<and> (\<forall>n. upd_name dto = Some n \<and> Some n \<noteq> name c
                  \<longrightarrow> name u = Some n \<and> isNameManual u)"
proof -
  let ?d = "updateByPhone_data dto c now"
  let ?u = "applyData ?d c"
  obtain db' where r: "updateByPhone ph dto now db = Inr (?u, db')"
    and cs: "contacts db'
             = map (\<lambda>x. if contact_id x = contact_id c then applyData ?d x else x) (contacts db)"
    using updateByPhone_found [OF assms, of dto now]
    by (auto split: option.splits)
  have "findByPhone ph db' = Some ?u"
    unfolding findByPhone_def contact_findByPhone_def cs
    by (rule findByPhone_after_update [OF assms(2)]) simp
  moreover have "upd_isCPC dto = Some True \<longrightarrow> isCPC ?u \<and> lastCPCAt ?u = Some now"
    by (simp add: applyData_def updateByPhone_data_def updateData_def orKeep_def Let_def
        split: option.splits)
  moreover have "upd_isCPC dto = Some False \<longrightarrow> \<not> isCPC ?u \<and> lastCPCAt ?u = None"
    by (simp add: applyData_def updateByPhone_data_def updateData_def orKeep_def Let_def
        split: option.splits)
  moreover have "\<forall>n. upd_name dto = Some n \<and> Some n \<noteq> name c
                  \<longrightarrow> name ?u = Some n \<and> isNameManual ?u"
    by (simp add: applyData_def updateByPhone_data_def updateData_def orKeep_def
        orKeepOpt_def Let_def)
  ultimately show ?thesis
    using r by blast
qed

lemma wf_exampleStore: "wf_store exampleStore"
  by (simp add: wf_store_def exampleStore_def ana_def)

lemma findByPhone_exampleStore: "findByPhone ''5511999999999'' exampleStore = Some ana"
  by (simp add: findByPhone_def contact_findByPhone_def exampleStore_def ana_def)

theorem updateByPhone_derived_fields_witness:
  "wf_store exampleStore
   \<and> findByPhone ''5511999999999'' exampleStore = Some ana
   \<and> upd_isCPC cpcPatch = Some True
   \<and> (\<exists>u db'. updateByPhone ''5511999999999'' cpcPatch 42 exampleStore = Inr (u, db')
         \<and> findByPhone ''5511999999999'' db' = Some u
         \<and> isCPC u \<and> lastCPCAt u = Some 42)"
  using updateByPhone_derived_fields
    [OF wf_exampleStore findByPhone_exampleStore, of cpcPatch 42]
  by (auto simp: wf_exampleStore findByPhone_exampleStore cpcPatch_def)

subsection \<open>Name propagation\<close>

lemma nonBlank_iff: "n \<noteq> [] \<and> trim n \<noteq> [] \<longleftrightarrow> (\<exists>ch \<in> set n. \<not> isWhiteSpace ch)"
proof
  assume "n \<noteq> [] \<and> trim n \<noteq> []"
  then have "dropWhile isWhiteSpace n \<noteq> []"
    by (auto simp: trim_def dest: set_dropWhileD)
  then show "\<exists>ch \<in> set n. \<not> isWhiteSpace ch"
    by (auto simp: dropWhile_eq_Nil_conv dest: set_dropWhileD)
next
  assume "\<exists>ch \<in> set n. \<not> isWhiteSpace ch"
  then have d: "dropWhile isWhiteSpace n \<noteq> []"
    by (auto simp: dropWhile_eq_Nil_conv)
  then have "\<not> isWhiteSpace (hd (dropWhile isWhiteSpace n))"
    by (rule hd_dropWhile)
  moreover have "hd (dropWhile isWhiteSpace n) \<in> set (rev (dropWhile isWhiteSpace n))"
    using d by simp
  ultimately have "dropWhile isWhiteSpace (rev (dropWhile isWhiteSpace n)) \<noteq> []"
    unfolding dropWhile_eq_Nil_conv by blast
  with d show "n \<noteq> [] \<and> trim n \<noteq> []"
    by (auto simp: trim_def)
qed

lemma findByPhone_after_write:
  assumes "findByPhone ph db = Some c"
    and "\<And>x. x \<in> set (contacts db) \<Longrightarrow> contact_id x = contact_id c
           \<Longrightarrow> phone (applyData d x) = phone x"
  shows "find (\<lambda>x. phone x = ph)
           (map (\<lambda>x. if contact_id x = contact_id c then applyData d x else x) (contacts db))
         = Some (applyData d c)"
proof -
  have "find (\<lambda>x. phone x = ph)
           (map (\<lambda>x. if contact_id x = contact_id c then applyData d x else x) (contacts db))
        = map_option (\<lambda>x. if contact_id x = contact_id c then applyData d x else x)
            (find (\<lambda>x. phone x = ph) (contacts db))"
    by (rule find_map_key) (simp add: assms(2))
  then show ?thesis
    using assms(1) by (simp add: findByPhone_def contact_findByPhone_def)
qed

lemma same_id_same_row:
  "wf_store db \<Longrightarrow> c \<in> set (contacts db) \<Longrightarrow> x \<in> set (contacts db)
   \<Longrightarrow> contact_id x = contact_id c \<Longrightarrow> x = c"
  by (metis wf_store_def distinct_map inj_on_def)

lemma create_existing:
  assumes "wf_store db" and "findByPhone (new_phone dto) db = Some c"
  shows "create dto now db
         = Inr (applyData (createData dto) c,
                (case new_name dto of
                   None \<Rightarrow> (\<lambda>s. s)
                 | Some n \<Rightarrow>
                     if n \<noteq> [] \<and> trim n \<noteq> []
                     then conversation_updateMany
                            (\<lambda>v. contactPhone v = new_phone dto
                                  \<and> contactName v = ''Desconhecido'') n
                     else (\<lambda>s. s))
                  (db\<lparr>contacts :=
                        map (\<lambda>x. if contact_id x = contact_id c
                                  then applyData (createData dto) x else x)
                          (contacts db)\<rparr>))"
proof -
  have c: "c \<in> set (contacts db)" "phone c = new_phone dto"
    using assms(2) findByPhone_result by blast+
  have "contact_findById (contact_id c) db = Some c"
    using assms(1) c(1) by (rule findById_of_found)
  then have "contact_update (contact_id c) (createData dto) db
             = Inr (applyData (createData dto) c,
                    db\<lparr>contacts :=
                         map (\<lambda>x. if contact_id x = contact_id c
                                   then applyData (createData dto) x else x)
                           (contacts db)\<rparr>)"
    by (rule contact_update_found)
      (rule no_collision_same_phone [OF assms(1) c(1)], simp add: createData_def c(2))
  then show ?thesis
    using assms(2) c(2)
    by (simp add: create_def findByPhone_def split: option.splits)
qed

lemma create_new:
  assumes "findByPhone (new_phone dto) db = None"
  shows "create dto now db
         = Inr (\<lparr>contact_id = nextId db, phone = new_phone dto, name = new_name dto,
                 cpf = new_cpf dto, segment = new_segment dto, isCPC = False,
                 lastCPCAt = None, isNameManual = False, createdAt = now\<rparr>,
                (case new_name dto of
                   None \<Rightarrow> (\<lambda>s. s)
                 | Some n \<Rightarrow>
                     if n \<noteq> [] \<and> trim n \<noteq> []
                     then conversation_updateMany
                            (\<lambda>v. contactPhone v = new_phone dto
                                  \<and> contactName v = ''Desconhecido'') n
                     else (\<lambda>s. s))
                  (db\<lparr>contacts := contacts db @
                        [\<lparr>contact_id = nextId db, phone = new_phone dto, name = new_name dto,
                          cpf = new_cpf dto, segment = new_segment dto, isCPC = False,
                          lastCPCAt = None, isNameManual = False, createdAt = now\<rparr>],
                      nextId := Suc (nextId db)\<rparr>))"
proof -
  have "\<not> list_ex (\<lambda>c'. phone c' = new_phone dto) (contacts db)"
    using assms
    by (auto simp: findByPhone_def contact_findByPhone_def find_None_iff list_ex_iff)
  then show ?thesis
    using assms
    by (simp add: create_def contact_create_def findByPhone_def Let_def split: option.splits)
qed

lemma create_conversations:
  assumes "wf_store db"
  shows "\<exists>u db'. create dto now db = Inr (u, db')
           \<and> conversations db'
             = map (\<lambda>v. case new_name dto of
                          None \<Rightarrow> v
                        | Some n \<Rightarrow>
                            if (\<exists>ch \<in> set n. \<not> isWhiteSpace ch)
                               \<and> contactPhone v = new_phone dto
                               \<and> contactName v = ''Desconhecido''
                            then v\<lparr>contactName := n\<rparr> else v)
                 (conversations db)"
proof (cases "findByPhone (new_phone dto) db")
  case None
  show ?thesis
    unfolding create_new [OF None]
    by (cases "new_name dto")
      (auto simp: conversations_updateMany nonBlank_iff [symmetric])
next
  case (Some c)
  show ?thesis
    unfolding create_existing [OF assms Some]
    by (cases "new_name dto")
      (auto simp: conversations_updateMany nonBlank_iff [symmetric])
qed

lemma update_found:
  assumes "contact_findById i db = Some c"
  shows "update i patch db
         = Inr (applyData (updateData patch) c,
                (case upd_name patch of
                   None \<Rightarrow> (\<lambda>s. s)
                 | Some n \<Rightarrow>
                     if Some n \<noteq> name c
                     then conversation_updateMany (\<lambda>v. contactPhone v = phone c) n
                     else (\<lambda>s. s))
                  (db\<lparr>contacts :=
                        map (\<lambda>x. if contact_id x = i then applyData (updateData patch) x else x)
                          (contacts db)\<rparr>))"
proof -
  have "contact_update i (updateData patch) db
        = Inr (applyData (updateData patch) c,
               db\<lparr>contacts :=
                    map (\<lambda>x. if contact_id x = i then applyData (updateData patch) x else x)
                      (contacts db)\<rparr>)"
    using assms by (rule contact_update_found) (simp add: list_ex_iff)
  then show ?thesis
    using assms by (simp add: update_def findOne_def split: option.splits)
qed

lemma update_conversations:
  assumes "contact_findById i db = Some c"
  shows "\<exists>u db'. update i patch db = Inr (u, db')
           \<and> conversations db'
             = map (\<lambda>v. case upd_name patch of
                          None \<Rightarrow> v
                        | Some n \<Rightarrow>
                            if Some n \<noteq> name c \<and> contactPhone v = phone c
                            then v\<lparr>contactName := n\<rparr> else v)
                 (conversations db)"
  unfolding update_found [OF assms]
  by (cases "upd_name patch") (auto simp: conversations_updateMany)

lemma updateByPhone_conversations:
  assumes "wf_store db" and "findByPhone ph db = Some c"
  shows "\<exists>u db'. updateByPhone ph patch now db = Inr (u, db')
           \<and> conversations db'
             = map (\<lambda>v. case upd_name patch of
                          None \<Rightarrow> v
                        | Some n \<Rightarrow>
                            if Some n \<noteq> name c \<and> contactPhone v = ph
                            then v\<lparr>contactName := n\<rparr> else v)
                 (conversations db)"
  unfolding updateByPhone_found [OF assms]
  by (cases "upd_name patch") (auto simp: conversations_updateMany)

lemma findById_exampleStore: "contact_findById 1 exampleStore = Some ana"
  by (simp add: contact_findById_def exampleStore_def ana_def)

text \<open>
  C7, amended. In a store that respects the schema: \<open>create\<close> resolves and rewrites
  \<open>contactName\<close> to the incoming name, when that name has a character that is not white
  space, on exactly the conversations of the input's phone whose \<open>contactName\<close> is the
  placeholder \<open>Desconhecido\<close>; every other conversation is left as it is. \<open>update\<close> and
  \<open>updateByPhone\<close> of an existing contact resolve and, when the patch carries a name
  other than the stored one, rewrite \<open>contactName\<close> on every conversation of the contact's
  phone, whatever name it holds; no other conversation changes.
\<close>

theorem name_propagation_by_path:
  assumes "wf_store db"
  shows "(\<exists>u db'. create dto now db = Inr (u, db')
            \<and> conversations db'
              = map (\<lambda>v. case new_name dto of
                           None \<Rightarrow> v
                         | Some n \<Rightarrow>
                             if (\<exists>ch \<in> set n. \<not> isWhiteSpace ch)
                                \<and> contactPhone v = new_phone dto
                                \<and> contactName v = ''Desconhecido''
                             then v\<lparr>contactName := n\<rparr> else v)
                  (conversations db))
       \<and> (contact_findById i db = Some c \<longrightarrow>
            (\<exists>u db'. update i patch db = Inr (u, db')
               \<and> conversations db'
                 = map (\<lambda>v. case upd_name patch of
                              None \<Rightarrow> v
                            | Some n \<Rightarrow>
                                if Some n \<noteq> name c \<and> contactPhone v = phone c
                                then v\<lparr>contactName := n\<rparr> else v)
                     (conversations db)))
       \<and> (findByPhone ph db = Some c' \<longrightarrow>
            (\<exists>u db'. updateByPhone ph patch now db = Inr (u, db')
               \<and> conversations db'
                 = map (\<lambda>v. case upd_name patch of
                              None \<Rightarrow> v
                            | Some n \<Rightarrow>
                                if Some n \<noteq> name c' \<and> contactPhone v = ph
                                then v\<lparr>contactName := n\<rparr> else v)
                     (conversations db)))"
  using create_conversations [OF assms, of dto now]
    update_conversations [of i db c patch]
    updateByPhone_conversations [OF assms, of ph c' patch now]
  by blast

theorem name_propagation_by_path_witness:
  "wf_store exampleStore
   \<and> contact_findById 1 exampleStore = Some ana
   \<and> (\<exists>u db'. create biaDto 7 exampleStore = Inr (u, db')
         \<and> conversations db'
           = [\<lparr>contactPhone = ''5511999999999'', contactName = ''Bia''\<rparr>,
              \<lparr>contactPhone = ''5511999999999'', contactName = ''Unknown''\<rparr>,
              \<lparr>contactPhone = ''5511888888888'', contactName = ''Desconhecido''\<rparr>])
   \<and> (\<exists>u db'. update 1 biaPatch exampleStore = Inr (u, db')
         \<and> conversations db'
           = [\<lparr>contactPhone = ''5511999999999'', contactName = ''Bia''\<rparr>,
              \<lparr>contactPhone = ''5511999999999'', contactName = ''Bia''\<rparr>,
              \<lparr>contactPhone = ''5511888888888'', contactName = ''Desconhecido''\<rparr>])"
  using name_propagation_by_path
    [OF wf_exampleStore, of biaDto 7 1 ana biaPatch "''5511999999999''" ana]
  by (simp add: wf_store_def contact_findById_def findByPhone_def contact_findByPhone_def
      biaDto_def biaPatch_def exampleStore_def ana_def isWhiteSpace_def)

text \<open>
  The spec's own example on the code: a new contact Ana, and a conversation of her phone
  named \<open>Unknown\<close>. The conversation keeps that name.
\<close>

theorem unknown_is_not_the_placeholder:
  "create anaDto 100 unknownStore
   = Inr (\<lparr>contact_id = 1, phone = ''5511999999999'', name = Some ''Ana'', cpf = None,
           segment = None, isCPC = False, lastCPCAt = None, isNameManual = False,
           createdAt = 100\<rparr>,
          \<lparr>contacts =
             [\<lparr>contact_id = 1, phone = ''5511999999999'', name = Some ''Ana'', cpf = None,
               segment = None, isCPC = False, lastCPCAt = None, isNameManual = False,
               createdAt = 100\<rparr>],
           conversations =
             [\<lparr>contactPhone = ''5511999999999'', contactName = ''Unknown''\<rparr>],
           nextId = 2\<rparr>)"
  by (simp add: create_def contact_findByPhone_def contact_create_def anaDto_def
      unknownStore_def conversation_updateMany_def trim_def isWhiteSpace_def Let_def)

subsection \<open>The upsert and the manual-name flag\<close>

text \<open>
  C10. When the contact of the input's phone exists with \<open>isNameManual\<close> set and the input
  carries a name, \<open>create\<close> resolves with that contact updated and stored under the
  phone: its name is the input's, cpf and segment are the input's where the input gives
  them, and the flag is still set.
\<close>

theorem create_overwrites_manual_name:
  assumes "wf_store db" and "findByPhone (new_phone dto) db = Some c"
    and "isNameManual c" and "new_name dto = Some n"
  shows "\<exists>u db'. create dto now db = Inr (u, db')
           \<and> findByPhone (new_phone dto) db' = Some u
           \<and> contact_id u = contact_id c
           \<and> phone u = new_phone dto
           \<and> name u = Some n
           \<and> cpf u = (case new_cpf dto of Some x \<Rightarrow> Some x | None \<Rightarrow> cpf c)
           \<and> segment u = (case new_segment dto of Some x \<Rightarrow> Some x | None \<Rightarrow> segment c)
           \<and> isNameManual u"
proof -
  let ?u = "applyData (createData dto) c"
  have c: "c \<in> set (contacts db)" "phone c = new_phone dto"
    using assms(2) findByPhone_result by blast+
  obtain db' where r: "create dto now db = Inr (?u, db')"
    and cs: "contacts db'
             = map (\<lambda>x. if contact_id x = contact_id c then applyData (createData dto) x else x)
                 (contacts db)"
    using create_existing [OF assms(1,2), of now] assms(4)
    by (auto split: if_splits)
  have "phone (applyData (createData dto) x) = phone x"
    if "x \<in> set (contacts db)" and "contact_id x = contact_id c" for x
  proof -
    have "x = c" using assms(1) c(1) that by (rule same_id_same_row)
    then show ?thesis by (simp add: applyData_def createData_def orKeep_def c(2))
  qed
  then have "findByPhone (new_phone dto) db' = Some ?u"
    unfolding findByPhone_def contact_findByPhone_def cs
    by (rule findByPhone_after_write [OF assms(2)])
  moreover have "contact_id ?u = contact_id c" "phone ?u = new_phone dto" "name ?u = Some n"
    "cpf ?u = (case new_cpf dto of Some x \<Rightarrow> Some x | None \<Rightarrow> cpf c)"
    "segment ?u = (case new_segment dto of Some x \<Rightarrow> Some x | None \<Rightarrow> segment c)"
    "isNameManual ?u"
    using assms(3,4)
    by (simp_all add: applyData_def createData_def orKeep_def orKeepOpt_def)
  ultimately show ?thesis
    using r by blast
qed

theorem create_overwrites_manual_name_witness:
  "wf_store exampleStore
   \<and> findByPhone (new_phone biaDto) exampleStore = Some ana
   \<and> isNameManual ana \<and> name ana = Some ''Ana'' \<and> new_name biaDto = Some ''Bia''
   \<and> (\<exists>u db'. create biaDto 7 exampleStore = Inr (u, db')
         \<and> findByPhone (new_phone biaDto) db' = Some u
         \<and> name u = Some ''Bia'' \<and> cpf u = Some ''12345678900'' \<and> segment u = Some 5
         \<and> isNameManual u)"
proof -
  have f: "findByPhone (new_phone biaDto) exampleStore = Some ana"
    by (simp add: biaDto_def findByPhone_exampleStore)
  have m: "isNameManual ana" "name ana = Some ''Ana''" "new_name biaDto = Some ''Bia''"
    by (simp_all add: ana_def biaDto_def)
  show ?thesis
    using create_overwrites_manual_name [OF wf_exampleStore f m(1) m(3), of 7]
    by (auto simp: wf_exampleStore f m) (auto simp: biaDto_def ana_def)
qed

subsection \<open>The flag and its timestamp\<close>

text \<open>
  C4. \<open>update\<close> with a patch that sets \<open>isCPC\<close> stores the flag and leaves \<open>lastCPCAt\<close>
  as it was: here a contact that was never marked becomes \<open>isCPC = true\<close> with a null
  \<open>lastCPCAt\<close>, where \<open>updateByPhone\<close> with the same patch stamps the time.
\<close>

theorem update_sets_isCPC_without_timestamp:
  "update 1 cpcPatch exampleStore
   = Inr (ana\<lparr>isCPC := True\<rparr>, exampleStore\<lparr>contacts := [ana\<lparr>isCPC := True\<rparr>]\<rparr>)
   \<and> isCPC ana = False \<and> lastCPCAt ana = None
   \<and> isCPC (ana\<lparr>isCPC := True\<rparr>) = True \<and> lastCPCAt (ana\<lparr>isCPC := True\<rparr>) = None
   \<and> updateByPhone ''5511999999999'' cpcPatch 42 exampleStore
     = Inr (ana\<lparr>isCPC := True, lastCPCAt := Some 42\<rparr>,
            exampleStore\<lparr>contacts := [ana\<lparr>isCPC := True, lastCPCAt := Some 42\<rparr>]\<rparr>)"
proof -
  have "update 1 cpcPatch exampleStore
        = Inr (ana\<lparr>isCPC := True\<rparr>, exampleStore\<lparr>contacts := [ana\<lparr>isCPC := True\<rparr>]\<rparr>)"
    unfolding update_found [OF findById_exampleStore]
    by (simp add: cpcPatch_def updateData_def applyData_def orKeep_def orKeepOpt_def
        exampleStore_def ana_def)
  moreover have "updateByPhone ''5511999999999'' cpcPatch 42 exampleStore
        = Inr (ana\<lparr>isCPC := True, lastCPCAt := Some 42\<rparr>,
               exampleStore\<lparr>contacts := [ana\<lparr>isCPC := True, lastCPCAt := Some 42\<rparr>]\<rparr>)"
    unfolding updateByPhone_found [OF wf_exampleStore findByPhone_exampleStore]
    by (simp add: cpcPatch_def updateData_def updateByPhone_data_def applyData_def orKeep_def
        orKeepOpt_def exampleStore_def ana_def)
  ultimately show ?thesis
    by (simp add: ana_def)
qed

subsection \<open>Listing\<close>

lemma mset_findMany: "mset (contact_findMany wh db) = mset (filter wh (contacts db))"
  by (simp add: contact_findMany_def)

lemma sorted_findMany:
  "sorted_wrt (\<lambda>a b. createdAt b \<le> createdAt a) (contact_findMany wh db)"
proof -
  have "sorted (map createdAt (sort_key createdAt (filter wh (contacts db))))"
    by (rule sorted_sort_key)
  then have "sorted_wrt (\<lambda>a b. createdAt a \<le> createdAt b)
               (sort_key createdAt (filter wh (contacts db)))"
    by (simp add: sorted_map)
  then show ?thesis
    by (simp add: contact_findMany_def sorted_wrt_rev)
qed

text \<open>
  C8, amended. Whatever the text filters of the database are, \<open>findAll\<close> returns the
  contacts that match the filter, each as often as it is stored, newest first. A search
  string that is not empty keeps the contacts whose name the case-insensitive filter
  matches against it, or whose phone or cpf the plain filter matches against it (a null
  name or cpf matches nothing); a segment other than 0 keeps the contacts of exactly
  that segment; an absent or empty search and an absent or zero segment keep
  everything, so the empty filter returns every contact.
\<close>

theorem findAll_filters_and_orders:
  "mset (findAll contains containsInsensitive search seg db)
   = mset (filter
       (\<lambda>c. (case search of
                None \<Rightarrow> True
              | Some s \<Rightarrow>
                  s = []
                  \<or> (case name c of None \<Rightarrow> False | Some v \<Rightarrow> containsInsensitive v s)
                  \<or> contains (phone c) s
                  \<or> (case cpf c of None \<Rightarrow> False | Some v \<Rightarrow> contains v s))
            \<and> (case seg of None \<Rightarrow> True | Some g \<Rightarrow> g = 0 \<or> segment c = Some g))
       (contacts db))
   \<and> sorted_wrt (\<lambda>a b. createdAt b \<le> createdAt a)
       (findAll contains containsInsensitive search seg db)
   \<and> mset (findAll contains containsInsensitive None None db) = mset (contacts db)
   \<and> mset (findAll contains containsInsensitive (Some []) (Some 0) db) = mset (contacts db)"
proof -
  have "findAll_where contains containsInsensitive search seg
        = (\<lambda>c. (case search of
                None \<Rightarrow> True
              | Some s \<Rightarrow>
                  s = []
                  \<or> (case name c of None \<Rightarrow> False | Some v \<Rightarrow> containsInsensitive v s)
                  \<or> contains (phone c) s
                  \<or> (case cpf c of None \<Rightarrow> False | Some v \<Rightarrow> contains v s))
            \<and> (case seg of None \<Rightarrow> True | Some g \<Rightarrow> g = 0 \<or> segment c = Some g))"
    by (auto simp: findAll_where_def columnMatches_def fun_eq_iff split: option.splits)
  moreover have "findAll_where contains containsInsensitive None None = (\<lambda>c. True)"
    "findAll_where contains containsInsensitive (Some []) (Some 0) = (\<lambda>c. True)"
    by (simp_all add: findAll_where_def fun_eq_iff)
  ultimately show ?thesis
    by (simp add: findAll_def mset_findMany sorted_findMany)
qed

text \<open>
  With segment 0 in the filter the list holds a contact of segment 5: the zero is taken
  as no segment at all. No text filter is consulted, the search being absent.
\<close>

theorem findAll_segment_zero:
  "findAll substringMatch substringMatch None (Some 0) exampleStore = [ana]
   \<and> segment ana = Some 5"
  by (simp add: findAll_def contact_findMany_def findAll_where_def exampleStore_def ana_def)

theorem findAll_filters_and_orders_witness:
  "mset (findAll substringMatch substringMatch None (Some 5) exampleStore) = {#ana#}
   \<and> mset (findAll substringMatch substringMatch None (Some 6) exampleStore) = {#}
   \<and> mset (findAll substringMatch substringMatch (Some ''1199'') None exampleStore) = {#ana#}
   \<and> mset (findAll substringMatch substringMatch (Some ''Bia'') None exampleStore) = {#}"
  using findAll_filters_and_orders [of substringMatch substringMatch None "Some 5" exampleStore]
    findAll_filters_and_orders [of substringMatch substringMatch None "Some 6" exampleStore]
    findAll_filters_and_orders
      [of substringMatch substringMatch "Some ''1199''" None exampleStore]
    findAll_filters_and_orders
      [of substringMatch substringMatch "Some ''Bia''" None exampleStore]
  by (simp add: exampleStore_def ana_def substringMatch_def sublist_Cons_right)

subsection \<open>The operations keep the store well formed\<close>

lemma applyData_id [simp]: "contact_id (applyData d x) = contact_id x"
  by (simp add: applyData_def)

lemma wf_after_write:
  assumes "wf_store db"
    and "\<And>x. x \<in> set (contacts db) \<Longrightarrow> contact_id x = i \<Longrightarrow> phone (applyData d x) = phone x"
  shows "wf_store (db\<lparr>contacts :=
                       map (\<lambda>x. if contact_id x = i then applyData d x else x) (contacts db)\<rparr>)"
proof -
  let ?g = "\<lambda>x. if contact_id x = i then applyData d x else x"
  have "map contact_id (map ?g (contacts db)) = map contact_id (contacts db)"
    by simp
  moreover have "map phone (map ?g (contacts db)) = map phone (contacts db)"
    using assms(2) by simp
  moreover have "list_all (\<lambda>c. contact_id c < nextId db) (map ?g (contacts db))"
    using assms(1) by (auto simp: wf_store_def list_all_iff)
  ultimately show ?thesis
    using assms(1) by (simp add: wf_store_def del: map_map)
qed

lemma wf_updateMany: "wf_store (conversation_updateMany wh n db) = wf_store db"
  by (simp add: wf_store_def conversation_updateMany_def)

lemma wf_propagation:
  "wf_store db \<Longrightarrow> wf_store ((case v of None \<Rightarrow> (\<lambda>s. s)
                                | Some n \<Rightarrow> if P n then conversation_updateMany (wh n) n
                                            else (\<lambda>s. s)) db)"
  by (simp add: wf_updateMany split: option.splits)

lemma update_keeps_wf:
  assumes "wf_store db" and "update i patch db = Inr (u, db')"
  shows "wf_store db'"
proof (cases "contact_findById i db")
  case None
  with assms(2) show ?thesis
    by (simp add: update_def findOne_def)
next
  case (Some c)
  have "wf_store (db\<lparr>contacts :=
          map (\<lambda>x. if contact_id x = i then applyData (updateData patch) x else x)
            (contacts db)\<rparr>)"
    using assms(1) by (rule wf_after_write) (simp add: applyData_keeps_phone)
  then show ?thesis
    using assms(2) unfolding update_found [OF Some]
    by (auto simp: wf_updateMany split: option.splits if_splits)
qed

lemma updateByPhone_keeps_wf:
  assumes "wf_store db" and "updateByPhone ph patch now db = Inr (u, db')"
  shows "wf_store db'"
proof (cases "findByPhone ph db")
  case None
  with assms(2) show ?thesis
    by (simp add: updateByPhone_def)
next
  case (Some c)
  have "wf_store (db\<lparr>contacts :=
          map (\<lambda>x. if contact_id x = contact_id c
                    then applyData (updateByPhone_data patch c now) x else x)
            (contacts db)\<rparr>)"
    using assms(1) by (rule wf_after_write) (simp add: applyData_keeps_phone)
  then show ?thesis
    using assms(2) unfolding updateByPhone_found [OF assms(1) Some]
    by (auto simp: wf_updateMany split: option.splits if_splits)
qed

lemma create_keeps_wf:
  assumes "wf_store db" and "create dto now db = Inr (u, db')"
  shows "wf_store db'"
proof (cases "findByPhone (new_phone dto) db")
  case None
  then have "new_phone dto \<notin> phone ` set (contacts db)"
    by (auto simp: findByPhone_def contact_findByPhone_def find_None_iff)
  moreover have "nextId db \<notin> contact_id ` set (contacts db)"
    using assms(1) by (auto simp: wf_store_def list_all_iff)
  ultimately have "wf_store (db\<lparr>contacts := contacts db @
                        [\<lparr>contact_id = nextId db, phone = new_phone dto, name = new_name dto,
                          cpf = new_cpf dto, segment = new_segment dto, isCPC = False,
                          lastCPCAt = None, isNameManual = False, createdAt = now\<rparr>],
                      nextId := Suc (nextId db)\<rparr>)"
    using assms(1) by (auto simp: wf_store_def list_all_iff less_Suc_eq)
  then show ?thesis
    using assms(2) unfolding create_new [OF None]
    by (auto simp: wf_updateMany split: option.splits if_splits)
next
  case (Some c)
  have c: "c \<in> set (contacts db)" "phone c = new_phone dto"
    using Some findByPhone_result by blast+
  have "phone (applyData (createData dto) x) = phone x"
    if "x \<in> set (contacts db)" and "contact_id x = contact_id c" for x
  proof -
    have "x = c" using assms(1) c(1) that by (rule same_id_same_row)
    then show ?thesis by (simp add: applyData_def createData_def orKeep_def c(2))
  qed
  with assms(1) have "wf_store (db\<lparr>contacts :=
          map (\<lambda>x. if contact_id x = contact_id c then applyData (createData dto) x else x)
            (contacts db)\<rparr>)"
    by (rule wf_after_write)
  then show ?thesis
    using assms(2) unfolding create_existing [OF assms(1) Some]
    by (auto simp: wf_updateMany split: option.splits if_splits)
qed

lemma remove_keeps_wf:
  assumes "wf_store db" and "remove i db = Inr (u, db')"
  shows "wf_store db'"
  using assms
  by (auto simp: remove_def findOne_def contact_delete_def wf_store_def distinct_map_filter
      list_all_iff split: option.splits)

end
